theory Spec2Isabelle
  imports Complex_Main "HOL-Library.Word"
begin

unbundle bit_operations_syntax

section \<open>Worker pool sizing (stress-memthrash.c)\<close>

text \<open>
  \<^verbatim>\<open>stress_memthrash_max(instances, total_cpus)\<close>: both arguments and the result are
  \<^verbatim>\<open>uint32_t\<close>; division and remainder are the unsigned ones of C.
\<close>

definition stress_memthrash_max :: "32 word \<Rightarrow> 32 word \<Rightarrow> 32 word" where
  "stress_memthrash_max instances total_cpus =
     (if instances \<ge> total_cpus \<or> instances = 0 then 1
      else (let max = total_cpus div instances
            in if total_cpus mod instances = 0 then max else max + 1))"

text \<open>
  \<^verbatim>\<open>stress_memthash_optimal(instances, total_cpus)\<close>: the \<^verbatim>\<open>while (n > 1)\<close> loop, counting
  \<^verbatim>\<open>n\<close> down from \<^verbatim>\<open>instances\<close>.
\<close>

function optimal_loop :: "32 word \<Rightarrow> 32 word \<Rightarrow> 32 word" where
  "optimal_loop total_cpus n =
     (if n > 1 then
        (if total_cpus mod n = 0 then n else optimal_loop total_cpus (n - 1))
      else 1)"
  by pat_completeness auto
termination
proof (relation "measure (\<lambda>(c, n). unat n)")
  show "wf (measure (\<lambda>(c :: 32 word, n :: 32 word). unat n))"
    by simp
next
  fix total_cpus n :: "32 word"
  assume "1 < n"
  then have "n \<noteq> 0"
    by auto
  then have "unat (n - 1) < unat n"
    by (simp add: unat_minus_one unat_gt_0)
  then show "((total_cpus, n - 1), (total_cpus, n)) \<in> measure (\<lambda>(c, n). unat n)"
    by simp
qed

definition stress_memthash_optimal :: "32 word \<Rightarrow> 32 word \<Rightarrow> 32 word" where
  "stress_memthash_optimal instances total_cpus = optimal_loop total_cpus instances"


section \<open>The memthrash method registry (stress-memthrash.c)\<close>

text \<open>
  Three entries of \<^verbatim>\<open>memthrash_methods[]\<close> are compiled in only when the build has
  \<^verbatim>\<open>HAVE_INT128_T\<close>, \<^verbatim>\<open>HAVE_ASM_X86_CLFLUSH\<close> and \<^verbatim>\<open>MEM_LOCK\<close>.
\<close>

record build_config =
  have_int128_t :: bool
  have_asm_x86_clflush :: bool
  have_mem_lock :: bool

text \<open>The method functions, compared by address in the C code, are the values of an enumeration.\<close>

datatype memthrash_func =
    Stress_memthrash_all
  | Stress_memthrash_random_chunk1
  | Stress_memthrash_random_chunk8
  | Stress_memthrash_random_chunk64
  | Stress_memthrash_random_chunk256
  | Stress_memthrash_random_chunkpage
  | Stress_memthrash_copy128
  | Stress_memthrash_flip_mem
  | Stress_memthrash_flush
  | Stress_memthrash_lock
  | Stress_memthrash_matrix
  | Stress_memthrash_memmove
  | Stress_memthrash_memset
  | Stress_memthrash_memset64
  | Stress_memthrash_mfence
  | Stress_memthrash_prefetch
  | Stress_memthrash_random
  | Stress_memthrash_spinread
  | Stress_memthrash_spinwrite
  | Stress_memthrash_swap
  | Stress_memthrash_swap64
  | Stress_memthrash_swapfwdrev
  | Stress_memthrash_tlb

type_synonym memthrash_method_info = "string \<times> memthrash_func"

definition memthrash_methods :: "build_config \<Rightarrow> memthrash_method_info list" where
  "memthrash_methods cfg =
     [(''all'', Stress_memthrash_all),
      (''chunk1'', Stress_memthrash_random_chunk1),
      (''chunk8'', Stress_memthrash_random_chunk8),
      (''chunk64'', Stress_memthrash_random_chunk64),
      (''chunk256'', Stress_memthrash_random_chunk256),
      (''chunkpage'', Stress_memthrash_random_chunkpage)]
     @ (if have_int128_t cfg then [(''copy128'', Stress_memthrash_copy128)] else [])
     @ [(''flip'', Stress_memthrash_flip_mem)]
     @ (if have_asm_x86_clflush cfg then [(''flush'', Stress_memthrash_flush)] else [])
     @ (if have_mem_lock cfg then [(''lock'', Stress_memthrash_lock)] else [])
     @ [(''matrix'', Stress_memthrash_matrix),
        (''memmove'', Stress_memthrash_memmove),
        (''memset'', Stress_memthrash_memset),
        (''memset64'', Stress_memthrash_memset64),
        (''mfence'', Stress_memthrash_mfence),
        (''prefetch'', Stress_memthrash_prefetch),
        (''random'', Stress_memthrash_random),
        (''spinread'', Stress_memthrash_spinread),
        (''spinwrite'', Stress_memthrash_spinwrite),
        (''swap'', Stress_memthrash_swap),
        (''swap64'', Stress_memthrash_swap64),
        (''swapfwdrev'', Stress_memthrash_swapfwdrev),
        (''tlb'', Stress_memthrash_tlb)]"

text \<open>A build with every optional entry, as gcc on x86-64 gives.\<close>

definition full_build :: build_config where
  "full_build = \<lparr>have_int128_t = True, have_asm_x86_clflush = True, have_mem_lock = True\<rparr>"

subsection \<open>The "all" meta-method\<close>

text \<open>
  \<^verbatim>\<open>stress_memthrash_all\<close> keeps \<^verbatim>\<open>static size_t i = 1\<close> across calls. One call runs
  \<^verbatim>\<open>memthrash_methods[i].func\<close> in a do-while loop (at least once, and again while the
  thread is not terminated and less than 10 ms have passed), then advances \<^verbatim>\<open>i\<close> and
  wraps it to 1 at \<^verbatim>\<open>SIZEOF_ARRAY(memthrash_methods)\<close>. The clock is outside the model:
  \<open>again\<close> is the number of times the loop condition held on this call. The calls made
  are appended to a log.
\<close>

record all_state =
  rot_i :: nat
  calls :: "memthrash_func list"

definition all_fresh :: all_state where
  "all_fresh = \<lparr>rot_i = 1, calls = []\<rparr>"

primrec all_do_while :: "memthrash_func \<Rightarrow> nat \<Rightarrow> memthrash_func list" where
  "all_do_while func 0 = [func]"
| "all_do_while func (Suc again) = func # all_do_while func again"

definition stress_memthrash_all :: "memthrash_method_info list \<Rightarrow> nat \<Rightarrow> all_state \<Rightarrow> all_state" where
  "stress_memthrash_all methods again st =
     (let ran = all_do_while (snd (methods ! rot_i st)) again;
          i = rot_i st + 1;
          i = (if i \<ge> length methods then 1 else i)
      in \<lparr>rot_i = i, calls = calls st @ ran\<rparr>)"

text \<open>Consecutive calls, one per element of the list of loop-condition counts.\<close>

fun all_calls :: "memthrash_method_info list \<Rightarrow> nat list \<Rightarrow> all_state \<Rightarrow> all_state" where
  "all_calls methods [] st = st"
| "all_calls methods (again # rest) st = all_calls methods rest (stress_memthrash_all methods again st)"

text \<open>The slots visited by consecutive calls: the value of \<^verbatim>\<open>i\<close> at the start of each.\<close>

fun all_slots :: "memthrash_method_info list \<Rightarrow> nat list \<Rightarrow> all_state \<Rightarrow> nat list" where
  "all_slots methods [] st = []"
| "all_slots methods (again # rest) st =
     rot_i st # all_slots methods rest (stress_memthrash_all methods again st)"

subsection \<open>The "random" meta-method\<close>

text \<open>
  \<^verbatim>\<open>size_t i = stress_mwc8() % SIZEOF_ARRAY(memthrash_methods)\<close>: the index drawn from one
  byte of the generator.
\<close>

definition random_draw :: "memthrash_method_info list \<Rightarrow> 8 word \<Rightarrow> nat" where
  "random_draw methods mwc8 = unat mwc8 mod length methods"

text \<open>
  The \<^verbatim>\<open>for (;;)\<close> loop of \<^verbatim>\<open>stress_memthrash_random\<close>, over the bytes that
  \<^verbatim>\<open>stress_mwc8()\<close> returns. It returns the slot whose function it calls and the bytes
  not yet consumed; \<open>None\<close> when every byte given was rejected, so that the loop is
  still running.
\<close>

fun stress_memthrash_random :: "memthrash_method_info list \<Rightarrow> 8 word list \<Rightarrow> (nat \<times> 8 word list) option" where
  "stress_memthrash_random methods [] = None"
| "stress_memthrash_random methods (mwc8 # rest) =
     (let i = random_draw methods mwc8;
          func = snd (methods ! i)
      in if func \<noteq> Stress_memthrash_random \<and> func \<noteq> Stress_memthrash_all
         then Some (i, rest)
         else stress_memthrash_random methods rest)"


section \<open>Method selection by name\<close>

text \<open>
  C's \<^verbatim>\<open>strcmp\<close> on the bytes of two strings: zero when they are equal, otherwise the
  difference of the first two bytes that differ (the end of a string counting as 0).
\<close>

fun strcmp :: "string \<Rightarrow> string \<Rightarrow> int" where
  "strcmp [] [] = 0"
| "strcmp [] (b # bs) = - int (of_char b)"
| "strcmp (a # as) [] = int (of_char a)"
| "strcmp (a # as) (b # bs) =
     (if a = b then strcmp as bs else int (of_char a) - int (of_char b))"

text \<open>
  The state the two setters act on: the settings stored by \<^verbatim>\<open>stress_set_setting\<close>
  (the value stored is the address of a table entry, here its index) and what has been
  written to standard error.
\<close>

record cli_state =
  settings :: "string \<rightharpoonup> nat"
  stderr_out :: string

definition cli_init :: cli_state where
  "cli_init = \<lparr>settings = Map.empty, stderr_out = []\<rparr>"

text \<open>The first loop of \<^verbatim>\<open>stress_set_memthrash_method\<close>: the index of the first entry whose name compares equal.\<close>

fun memthrash_find :: "memthrash_method_info list \<Rightarrow> nat \<Rightarrow> string \<Rightarrow> nat option" where
  "memthrash_find [] i name = None"
| "memthrash_find (info # rest) i name =
     (if strcmp (fst info) name = 0 then Some i else memthrash_find rest (Suc i) name)"

text \<open>The second loop: \<^verbatim>\<open>fprintf(stderr, " %s", memthrash_methods[i].name)\<close> for every entry.\<close>

fun memthrash_print_names :: "memthrash_method_info list \<Rightarrow> string" where
  "memthrash_print_names [] = []"
| "memthrash_print_names (info # rest) = '' '' @ fst info @ memthrash_print_names rest"

definition stress_set_memthrash_method :: "build_config \<Rightarrow> string \<Rightarrow> cli_state \<Rightarrow> int \<times> cli_state" where
  "stress_set_memthrash_method cfg name st =
     (case memthrash_find (memthrash_methods cfg) 0 name of
        Some i \<Rightarrow> (0, st\<lparr>settings := (settings st)(''memthrash-method'' \<mapsto> i)\<rparr>)
      | None \<Rightarrow>
          (- 1, st\<lparr>stderr_out := stderr_out st @ ''memthrash-method must be one of:''
                     @ memthrash_print_names (memthrash_methods cfg) @ [CHR 0x0A]\<rparr>))"

text \<open>
  The opcode table ends with the entry \<^verbatim>\<open>{ NULL, NULL }\<close>; both loops of
  \<^verbatim>\<open>stress_set_opcode_method\<close> run while \<^verbatim>\<open>info->func\<close> is not null.
\<close>

datatype opcode_func =
    Stress_opcode_random
  | Stress_opcode_text
  | Stress_opcode_inc
  | Stress_opcode_mixed

type_synonym opcode_method_info = "string \<times> opcode_func option"

definition stress_opcode_methods :: "opcode_method_info list" where
  "stress_opcode_methods =
     [(''random'', Some Stress_opcode_random),
      (''text'', Some Stress_opcode_text),
      (''inc'', Some Stress_opcode_inc),
      (''mixed'', Some Stress_opcode_mixed),
      ([], None)]"

fun opcode_find :: "opcode_method_info list \<Rightarrow> nat \<Rightarrow> string \<Rightarrow> nat option" where
  "opcode_find [] i name = None"
| "opcode_find (info # rest) i name =
     (case snd info of
        None \<Rightarrow> None
      | Some func \<Rightarrow>
          if strcmp (fst info) name = 0 then Some i else opcode_find rest (Suc i) name)"

fun opcode_print_names :: "opcode_method_info list \<Rightarrow> string" where
  "opcode_print_names [] = []"
| "opcode_print_names (info # rest) =
     (case snd info of
        None \<Rightarrow> []
      | Some func \<Rightarrow> '' '' @ fst info @ opcode_print_names rest)"

definition stress_set_opcode_method :: "string \<Rightarrow> cli_state \<Rightarrow> int \<times> cli_state" where
  "stress_set_opcode_method name st =
     (case opcode_find stress_opcode_methods 0 name of
        Some i \<Rightarrow> (0, st\<lparr>settings := (settings st)(''opcode-method'' \<mapsto> i)\<rparr>)
      | None \<Rightarrow>
          (- 1, st\<lparr>stderr_out := stderr_out st @ ''opcode-method must be one of:''
                     @ opcode_print_names stress_opcode_methods @ [CHR 0x0A]\<rparr>))"

text \<open>
  The names a lookup can find: those of the entries before the terminating one.
\<close>

definition memthrash_names :: "build_config \<Rightarrow> string list" where
  "memthrash_names cfg = map fst (memthrash_methods cfg)"

definition opcode_names :: "string list" where
  "opcode_names = map fst (takeWhile (\<lambda>info. snd info \<noteq> None) stress_opcode_methods)"

text \<open>
  The comparison the specification names, "case-insensitive": two names match when they
  are equal after ASCII upper-case letters are replaced by their lower-case ones.
\<close>

definition ascii_tolower :: "char \<Rightarrow> char" where
  "ascii_tolower c =
     (if (65::nat) \<le> of_char c \<and> of_char c \<le> (90::nat) then char_of (of_char c + (32::nat)) else c)"

definition caseless_match :: "string \<Rightarrow> string \<Rightarrow> bool" where
  "caseless_match a b = (map ascii_tolower a = map ascii_tolower b)"

section \<open>The prime stride table (stress-memthrash.c)\<close>

definition MATRIX_SIZE_MAX_SHIFT :: nat where
  "MATRIX_SIZE_MAX_SHIFT = 14"

definition MATRIX_SIZE_MIN_SHIFT :: nat where
  "MATRIX_SIZE_MIN_SHIFT = 10"

definition MEM_SIZE_PRIMES :: nat where
  "MEM_SIZE_PRIMES = 1 + MATRIX_SIZE_MAX_SHIFT - MATRIX_SIZE_MIN_SHIFT"

definition STRESS_CACHE_LINE_SHIFT :: nat where
  "STRESS_CACHE_LINE_SHIFT = 6"

definition STRESS_CACHE_LINE_SIZE :: "64 word" where
  "STRESS_CACHE_LINE_SIZE = push_bit STRESS_CACHE_LINE_SHIFT 1"

record memthrash_primes =
  mem_size :: "64 word"
  prime_stride :: "64 word"

text \<open>
  The loop of \<^verbatim>\<open>stress_memthrash_find_primes\<close> over the static array
  \<^verbatim>\<open>stress_memthrash_primes[MEM_SIZE_PRIMES]\<close>, with \<^verbatim>\<open>size_t\<close> of 64 bits.
  \<^verbatim>\<open>1 << (2 * (i + MATRIX_SIZE_MIN_SHIFT))\<close> shifts the \<^verbatim>\<open>int\<close> 1 and is then converted
  to \<^verbatim>\<open>size_t\<close>. \<^verbatim>\<open>stress_get_prime64\<close> is a helper of the stress-ng core whose code is
  not in these two files: it is the parameter \<open>get_prime64\<close>.
\<close>

function find_primes_loop ::
  "(64 word \<Rightarrow> 64 word) \<Rightarrow> nat \<Rightarrow> memthrash_primes list \<Rightarrow> memthrash_primes list" where
  "find_primes_loop get_prime64 i primes =
     (if i < MEM_SIZE_PRIMES then
        (let mem_size = (scast (push_bit (2 * (i + MATRIX_SIZE_MIN_SHIFT)) (1 :: 32 word)) :: 64 word);
             cache_lines = (mem_size div STRESS_CACHE_LINE_SIZE) + 137
         in find_primes_loop get_prime64 (i + 1)
              (primes[i := \<lparr>mem_size = mem_size,
                             prime_stride = get_prime64 cache_lines * STRESS_CACHE_LINE_SIZE\<rparr>]))
      else primes)"
  by pat_completeness auto
termination
  by (relation "measure (\<lambda>(g, i, p). MEM_SIZE_PRIMES - i)") auto

definition stress_memthrash_find_primes :: "(64 word \<Rightarrow> 64 word) \<Rightarrow> memthrash_primes list" where
  "stress_memthrash_find_primes get_prime64 =
     find_primes_loop get_prime64 0 (replicate MEM_SIZE_PRIMES \<lparr>mem_size = 0, prime_stride = 0\<rparr>)"


section \<open>Mapping the arena (stress-memthrash.c)\<close>

datatype exit_code = EXIT_SUCCESS | EXIT_FAILURE | EXIT_NO_RESOURCE

datatype mem_ptr = MAP_FAILED | Arena

text \<open>
  What one pass through the label \<^verbatim>\<open>mmap_retry\<close> of \<^verbatim>\<open>stress_memthrash_child\<close> meets:
  \<^verbatim>\<open>mmap\<close> succeeds, or it fails and \<^verbatim>\<open>keep_stressing_flag()\<close> has the first value
  right after the failure and the second one after the sleep (the second is read only
  when the first is true).
\<close>

datatype mmap_attempt = Mmap_ok | Mmap_fails bool bool

record arena_state =
  map_populate :: bool
  mem :: mem_ptr
  mmap_calls :: "bool list"
  usleeps :: "nat list"
  munmaps :: "mem_ptr list"
  dbg_lines :: nat

text \<open>
  \<open>map_populate\<close> says whether \<^verbatim>\<open>MAP_POPULATE\<close> is in \<^verbatim>\<open>flags\<close>; it is set at the start
  when the build defines that flag. \<open>mmap_calls\<close> records, for each call of \<^verbatim>\<open>mmap\<close>,
  whether the flag was passed.
\<close>

definition arena_init :: "bool \<Rightarrow> arena_state" where
  "arena_init have_map_populate =
     \<lparr>map_populate = have_map_populate, mem = MAP_FAILED, mmap_calls = [],
      usleeps = [], munmaps = [], dbg_lines = 0\<rparr>"

datatype arena_result = Arena_mapped | Child_returns exit_code

text \<open>The code at the label \<^verbatim>\<open>reap_mem\<close>: unmap \<^verbatim>\<open>mem\<close>, free the thread array, return success.\<close>

definition reap_mem :: "arena_state \<Rightarrow> arena_result \<times> arena_state" where
  "reap_mem st = (Child_returns EXIT_SUCCESS, st\<lparr>munmaps := munmaps st @ [mem st]\<rparr>)"

text \<open>
  The retry loop. \<open>Arena_mapped\<close> is the fall-through to the creation of the threads;
  \<open>None\<close> means that every attempt given failed with the flag still set, so that the
  loop is still running.
\<close>

fun mmap_retry :: "mmap_attempt list \<Rightarrow> arena_state \<Rightarrow> (arena_result \<times> arena_state) option" where
  "mmap_retry [] st = None"
| "mmap_retry (Mmap_ok # rest) st =
     Some (Arena_mapped, st\<lparr>mem := Arena, mmap_calls := mmap_calls st @ [map_populate st]\<rparr>)"
| "mmap_retry (Mmap_fails keep1 keep2 # rest) st =
     (let st = st\<lparr>mem := MAP_FAILED, mmap_calls := mmap_calls st @ [map_populate st]\<rparr>;
          st = st\<lparr>map_populate := False\<rparr>
      in if \<not> keep1 then
           Some (Child_returns EXIT_NO_RESOURCE, st\<lparr>dbg_lines := dbg_lines st + 1\<rparr>)
         else
           (let st = st\<lparr>usleeps := usleeps st @ [100000]\<rparr>
            in if \<not> keep2 then Some (reap_mem st) else mmap_retry rest st))"

section \<open>The opcode engine (stress-opcode.c)\<close>

subsection \<open>Bit shuffling\<close>

definition reverse64 :: "64 word \<Rightarrow> 64 word" where
  "reverse64 x0 =
     (let x = drop_bit 4 (x0 AND 0xf0f0f0f0f0f0f0f0) OR push_bit 4 (x0 AND 0x0f0f0f0f0f0f0f0f);
          x = drop_bit 2 (x AND 0xcccccccccccccccc) OR push_bit 2 (x AND 0x3333333333333333);
          x = drop_bit 1 (x AND 0xaaaaaaaaaaaaaaaa) OR push_bit 1 (x AND 0x5555555555555555)
      in x)"

subsection \<open>The "inc" generator\<close>

text \<open>
  \<^verbatim>\<open>STRESS_OPCODE_SIZE\<close> and \<^verbatim>\<open>STRESS_OPCODE_MASK\<close> are fixed when the file is compiled
  (64 and all ones unless the build defines them).
\<close>

record opcode_build =
  opcode_size :: nat
  opcode_mask :: "64 word"

definition default_opcode_build :: opcode_build where
  "default_opcode_build = \<lparr>opcode_size = 64, opcode_mask = 0xffffffffffffffff\<rparr>"

definition opcode8_build :: opcode_build where
  "opcode8_build = \<lparr>opcode_size = 8, opcode_mask = 0xff\<rparr>"

definition PAGES :: nat where
  "PAGES = 16"

text \<open>
  The buffer \<^verbatim>\<open>opcodes\<close> of the child is a store from byte offsets to bytes; \<^verbatim>\<open>ops_begin\<close>
  and \<^verbatim>\<open>ops_end\<close> are offsets into it. Page sizes are below \<open>2 ^ 63\<close>, so the casts to
  \<^verbatim>\<open>ssize_t\<close> keep the value.
\<close>

type_synonym memory = "nat \<Rightarrow> 8 word"

text \<open>\<^verbatim>\<open>case 8\<close>: \<^verbatim>\<open>while (i--) *(ops++) = tmp8\<close>.\<close>

fun inc8_loop :: "nat \<Rightarrow> nat \<Rightarrow> 8 word \<Rightarrow> memory \<Rightarrow> memory" where
  "inc8_loop 0 ops tmp8 m = m"
| "inc8_loop (Suc i) ops tmp8 m = inc8_loop i (Suc ops) tmp8 (m(ops := tmp8))"

text \<open>A store of the low \<open>n\<close> bytes of a value, lowest byte first (a little-endian machine).\<close>

fun store_le :: "nat \<Rightarrow> 64 word \<Rightarrow> nat \<Rightarrow> memory \<Rightarrow> memory" where
  "store_le 0 v a m = m"
| "store_le (Suc n) v a m = store_le n (drop_bit 8 v) (Suc a) (m(a := ucast v))"

text \<open>The loops of the other cases: \<open>i\<close> stores of a code unit of \<open>w\<close> bytes.\<close>

fun inc_loop :: "nat \<Rightarrow> nat \<Rightarrow> nat \<Rightarrow> 64 word \<Rightarrow> memory \<Rightarrow> nat \<times> memory" where
  "inc_loop w 0 ops tmp m = (ops, m)"
| "inc_loop w (Suc i) ops tmp m = inc_loop w i (ops + w) tmp (store_le w tmp ops m)"

text \<open>\<^verbatim>\<open>case 48\<close>, the slop at the end: \<^verbatim>\<open>while (ops < ops_end) *ops++ = 0x00\<close>.\<close>

function zero_slop :: "nat \<Rightarrow> nat \<Rightarrow> memory \<Rightarrow> memory" where
  "zero_slop ops ops_end m =
     (if ops < ops_end then zero_slop (Suc ops) ops_end (m(ops := 0)) else m)"
  by pat_completeness auto
termination
  by (relation "measure (\<lambda>(ops, ops_end, m). ops_end - ops)") auto

definition stress_opcode_inc ::
  "opcode_build \<Rightarrow> nat \<Rightarrow> nat \<Rightarrow> nat \<Rightarrow> 64 word \<Rightarrow> memory \<Rightarrow> memory" where
  "stress_opcode_inc build page_size ops_begin ops_end op_val m =
     (if opcode_size build = 8 then
        inc8_loop page_size ops_begin (ucast (op_val AND 0xff)) m
      else if opcode_size build = 16 then
        snd (inc_loop 2 (page_size div 2) ops_begin (op_val AND 0xffff) m)
      else if opcode_size build = 48 then
        (let (ops, m) = inc_loop 6 (page_size div 6) ops_begin op_val m
         in zero_slop ops ops_end m)
      else if opcode_size build = 64 then
        snd (inc_loop 8 (page_size div 8) ops_begin op_val m)
      else
        snd (inc_loop 4 (page_size div 4) ops_begin (op_val AND 0xffffffff) m))"

text \<open>
  The buffer of a child that runs the "inc" generator, as it is when the generator has
  returned: \<^verbatim>\<open>memset(opcodes, 0x00, page_size * PAGES)\<close>, then the generator between
  \<^verbatim>\<open>ops_begin = opcodes + page_size\<close> and \<^verbatim>\<open>ops_end = opcodes + page_size * (PAGES - 1)\<close>.
  The first and the last page are the guard pages.
\<close>

definition child_opcodes_inc :: "opcode_build \<Rightarrow> nat \<Rightarrow> 64 word \<Rightarrow> memory" where
  "child_opcodes_inc build page_size op_val =
     (let opcodes = (\<lambda>a. 0);
          ops_begin = page_size;
          ops_end = page_size * (PAGES - 1)
      in stress_opcode_inc build page_size ops_begin ops_end op_val opcodes)"


subsection \<open>The disposable child\<close>

text \<open>How \<^verbatim>\<open>waitpid\<close> reports the end of a child: its exit code, or the signal that killed it.\<close>

datatype wait_status = Exited exit_code | Signaled nat

text \<open>
  What happens in one pass of the execution loop of the child. The generated bytes are
  machine code, so what they do is an input of the model: the call returns, or the
  process ends (a fault caught by \<^verbatim>\<open>stress_badhandler\<close>, the 50 ms timer, a kill) either
  before \<^verbatim>\<open>*op\<close> is advanced in this pass (in \<^verbatim>\<open>shim_seccomp\<close>) or after it.
\<close>

datatype slot_fate = Slot_returns | Dies_before_inc wait_status | Dies_after_inc wait_status

record child_env =
  killed_before_loop :: "wait_status option"
  drop_capabilities_ok :: bool
  sighandlers_ok :: bool
  mmap_ok :: bool
  setitimer_ok :: bool
  fate :: "nat \<Rightarrow> slot_fate"

text \<open>
  \<^verbatim>\<open>for (i = 0; i < opcode_loops; i++)\<close>, with \<open>left = opcode_loops - i\<close>: each pass sets
  \<^verbatim>\<open>*op = (*op + 1) & STRESS_OPCODE_MASK\<close> and calls the code at \<^verbatim>\<open>ops_begin\<close>; after the
  last pass the child calls \<^verbatim>\<open>_exit(0)\<close>. \<^verbatim>\<open>op\<close> points into a shared mapping, so the
  value the child leaves is the one the parent and the next child read.
\<close>

fun exec_loop :: "(nat \<Rightarrow> slot_fate) \<Rightarrow> 64 word \<Rightarrow> nat \<Rightarrow> nat \<Rightarrow> 64 word \<Rightarrow> 64 word \<times> wait_status" where
  "exec_loop fates msk i 0 op_val = (op_val, Exited EXIT_SUCCESS)"
| "exec_loop fates msk i (Suc left) op_val =
     (case fates i of
        Dies_before_inc status \<Rightarrow> (op_val, status)
      | Dies_after_inc status \<Rightarrow> ((op_val + 1) AND msk, status)
      | Slot_returns \<Rightarrow> exec_loop fates msk (Suc i) left ((op_val + 1) AND msk))"

text \<open>
  The branch \<^verbatim>\<open>pid == 0\<close> of \<^verbatim>\<open>stress_opcode\<close>: the value of \<^verbatim>\<open>*op\<close> the child leaves and
  the status it ends with. The buffer the child fills is private to it and gone with it.
\<close>

definition stress_opcode_child ::
  "opcode_build \<Rightarrow> nat \<Rightarrow> child_env \<Rightarrow> 64 word \<Rightarrow> 64 word \<times> wait_status" where
  "stress_opcode_child build page_size env op_val =
     (let opcode_bytes = opcode_size build div 8;
          opcode_loops = page_size div opcode_bytes
      in case killed_before_loop env of
           Some status \<Rightarrow> (op_val, status)
         | None \<Rightarrow>
             if \<not> drop_capabilities_ok env then (op_val, Exited EXIT_NO_RESOURCE)
             else if \<not> sighandlers_ok env then (op_val, Exited EXIT_FAILURE)
             else if \<not> mmap_ok env then (op_val, Exited EXIT_NO_RESOURCE)
             else if \<not> setitimer_ok env then (op_val, Exited EXIT_NO_RESOURCE)
             else exec_loop (fate env) (opcode_mask build) 0 opcode_loops op_val)"

subsection \<open>The driver\<close>

record driver_state =
  op_shared :: "64 word"
  counter :: "64 word"
  signals_sent :: "nat list"
  dbg_count :: nat

text \<open>
  Modelled from the spec: \<^verbatim>\<open>inc_counter\<close> of stress-ng.h, which is not in these two
  files; it counts one more bogo operation on the shared operation counter.
\<close>

definition inc_counter :: "driver_state \<Rightarrow> driver_state" where
  "inc_counter st = st\<lparr>counter := counter st + 1\<rparr>"

text \<open>
  The first \<^verbatim>\<open>shim_waitpid\<close> of the parent returns the pid, or fails with \<^verbatim>\<open>errno\<close> equal to
  \<^verbatim>\<open>EINTR\<close> or not.
\<close>

datatype wait_ret = Wait_pid | Wait_failed bool

definition SIGTERM :: nat where
  "SIGTERM = 15"

definition SIGKILL :: nat where
  "SIGKILL = 9"

text \<open>
  The branch \<^verbatim>\<open>pid > 0\<close>. \<open>status\<close> is what \<^verbatim>\<open>waitpid\<close> stored in the variable
  \<^verbatim>\<open>status\<close>; the second argument of \<open>Wait_failed\<close> says that \<^verbatim>\<open>errno\<close> is \<^verbatim>\<open>EINTR\<close>.
\<close>

definition parent_branch :: "wait_ret \<Rightarrow> wait_status \<Rightarrow> driver_state \<Rightarrow> driver_state" where
  "parent_branch ret status st =
     inc_counter
       (case ret of
          Wait_pid \<Rightarrow> st
        | Wait_failed eintr \<Rightarrow>
            (let st = (if \<not> eintr then st\<lparr>dbg_count := dbg_count st + 1\<rparr> else st)
             in st\<lparr>signals_sent := signals_sent st @ [SIGTERM, SIGKILL]\<rparr>))"

text \<open>
  One result of \<^verbatim>\<open>fork\<close> as the parent sees it: a failure, with the values of
  \<^verbatim>\<open>stress_redo_fork(errno)\<close> and of \<^verbatim>\<open>keep_stressing(args)\<close> (core helpers, inputs here), or
  a child, with what that child meets and what \<^verbatim>\<open>waitpid\<close> returns for it.
\<close>

datatype fork_res = Fork_failed bool bool | Fork_child child_env wait_ret

datatype loop_exit = Loop_end | Goto_finish | Goto_err exit_code

text \<open>
  The label \<^verbatim>\<open>again\<close>: fork until it works or fails for good. \<open>None\<close>: every result
  given was a failure to retry, the driver is still forking.
\<close>

fun fork_again ::
  "opcode_build \<Rightarrow> nat \<Rightarrow> fork_res list \<Rightarrow> driver_state \<Rightarrow> (loop_exit \<times> driver_state) option" where
  "fork_again build page_size [] st = None"
| "fork_again build page_size (Fork_failed redo keep # rest) st =
     (if redo then fork_again build page_size rest st
      else if \<not> keep then Some (Goto_finish, st)
      else Some (Goto_err EXIT_NO_RESOURCE, st))"
| "fork_again build page_size (Fork_child env ret # rest) st =
     (let (op_val, status) = stress_opcode_child build page_size env (op_shared st)
      in Some (Loop_end, parent_branch ret status (st\<lparr>op_shared := op_val\<rparr>)))"

text \<open>
  One pass of the \<^verbatim>\<open>do ... while (keep_stressing(args))\<close> loop: the results of its forks
  and the value of the loop condition at its end.
\<close>

record iteration =
  forks :: "fork_res list"
  keep_stressing :: bool

text \<open>
  The loop with the code after it, up to the return code of \<^verbatim>\<open>stress_opcode\<close>.
  \<open>None\<close>: the passes given are used up and the loop is still running.
\<close>

fun opcode_loop ::
  "opcode_build \<Rightarrow> nat \<Rightarrow> iteration list \<Rightarrow> driver_state \<Rightarrow> (exit_code \<times> driver_state) option" where
  "opcode_loop build page_size [] st = None"
| "opcode_loop build page_size (it # rest) st =
     (case fork_again build page_size (forks it) st of
        None \<Rightarrow> None
      | Some (Goto_finish, st) \<Rightarrow> Some (EXIT_SUCCESS, st)
      | Some (Goto_err rc, st) \<Rightarrow> Some (rc, st)
      | Some (Loop_end, st) \<Rightarrow>
          if keep_stressing it then opcode_loop build page_size rest st
          else Some (EXIT_SUCCESS, st))"

text \<open>
  \<^verbatim>\<open>stress_opcode\<close>: the shared page for \<^verbatim>\<open>op\<close> is mapped first (a failure skips the
  stressor), \<^verbatim>\<open>*op\<close> starts at \<open>op_start\<close> (computed in floating point from the instance
  number, an input here), then the loop runs.
\<close>

definition stress_opcode ::
  "opcode_build \<Rightarrow> nat \<Rightarrow> bool \<Rightarrow> 64 word \<Rightarrow> iteration list \<Rightarrow> driver_state \<Rightarrow>
     (exit_code \<times> driver_state) option" where
  "stress_opcode build page_size mmap_op_ok op_start script st =
     (if \<not> mmap_op_ok then Some (EXIT_NO_RESOURCE, st)
      else opcode_loop build page_size script (st\<lparr>op_shared := op_start\<rparr>))"

definition driver_init :: driver_state where
  "driver_init = \<lparr>op_shared = 0, counter = 0, signals_sent = [], dbg_count = 0\<rparr>"


section \<open>Properties of the worker pool sizing\<close>

lemma ceil_nat:
  assumes "0 < w"
  shows "\<lceil>real c / real w\<rceil> = int (if c mod w = 0 then c div w else c div w + 1)"
proof -
  have m: "(int c mod int w = 0) = (c mod w = 0)"
    by (simp flip: of_nat_mod)
  have d: "int c div int w = int (c div w)"
    by (simp add: zdiv_int)
  have "\<lceil>real c / real w\<rceil> = \<lceil>(of_int (int c) :: real) / of_int (int w)\<rceil>"
    by simp
  also have "\<dots> = - (- int c div int w)"
    by (rule ceiling_divide_eq_div)
  also have "\<dots> = (if int c mod int w = 0 then int c div int w else int c div int w + 1)"
    using assms by (simp add: zdiv_zminus1_eq_if)
  also have "\<dots> = int (if c mod w = 0 then c div w else c div w + 1)"
    by (simp add: m d)
  finally show ?thesis .
qed

lemma memthrash_max_unat:
  "unat (stress_memthrash_max w c) =
     (if unat c \<le> unat w \<or> unat w = 0 then 1
      else if unat c mod unat w = 0 then unat c div unat w else unat c div unat w + 1)"
proof -
  have le: "(c \<le> w) = (unat c \<le> unat w)"
    by (simp add: word_le_nat_alt)
  have z: "(w = 0) = (unat w = 0)"
    by (simp add: unat_eq_0)
  have m: "(c mod w = 0) = (unat c mod unat w = 0)"
    by (metis unat_mod unat_eq_0)
  have fits: "unat (c div w + 1) = unat c div unat w + 1"
    if "unat w < unat c" "unat c mod unat w \<noteq> 0" "unat w \<noteq> 0"
  proof -
    have "unat w \<noteq> 1"
      using that by auto
    with that have "2 \<le> unat w"
      by arith
    then have "unat c div unat w \<le> unat c div 2"
      by (simp add: div_le_mono2)
    moreover have "unat c < 2 ^ 32"
      using unsigned_less [of c] by simp
    ultimately have "unat c div unat w + 1 < 2 ^ 32"
      by simp
    then show ?thesis
      by (simp add: unat_word_ariths unat_div)
  qed
  show ?thesis
    unfolding stress_memthrash_max_def Let_def le z m
    using fits by (auto simp: unat_div)
qed


text \<open>
  C1. \<^verbatim>\<open>stress_memthrash_max(w, c)\<close> is 1 when \<open>w = 0\<close> or \<open>w \<ge> c\<close> and the ceiling of
  \<open>c / w\<close> otherwise; the result times \<open>w\<close> is at most \<open>c + w\<close>, and the result is at
  least 1. The values are read as unsigned 32-bit numbers; the products and sums are
  those of the natural numbers.
\<close>

theorem memthrash_max_worker_count:
  "unat (stress_memthrash_max w c) =
     (if w = 0 \<or> w \<ge> c then 1 else nat \<lceil>real (unat c) / real (unat w)\<rceil>)
   \<and> unat (stress_memthrash_max w c) * unat w \<le> unat c + unat w
   \<and> 1 \<le> unat (stress_memthrash_max w c)"
proof -
  let ?r = "unat (stress_memthrash_max w c)"
  have le: "(c \<le> w) = (unat c \<le> unat w)"
    by (simp add: word_le_nat_alt)
  have z: "(w = 0) = (unat w = 0)"
    by (simp add: unat_eq_0)
  have a: "?r = (if w = 0 \<or> w \<ge> c then 1 else nat \<lceil>real (unat c) / real (unat w)\<rceil>)"
  proof (cases "w = 0 \<or> w \<ge> c")
    case True
    then show ?thesis
      by (auto simp: memthrash_max_unat le z)
  next
    case False
    then have "0 < unat w"
      by (simp add: z)
    from ceil_nat [OF this, of "unat c"] False show ?thesis
      by (simp add: memthrash_max_unat le z)
  qed
  have b: "?r * unat w \<le> unat c + unat w"
    by (auto simp: memthrash_max_unat)
  have "0 < unat c div unat w" if "unat w < unat c" "unat w \<noteq> 0"
    using that by (simp add: div_greater_zero_iff)
  then have c: "1 \<le> ?r"
    by (auto simp: memthrash_max_unat)
  from a b c show ?thesis
    by blast
qed

text \<open>The same at 3, 0, 8 and 1 instances on 8 CPUs.\<close>

theorem memthrash_max_worker_count_witness:
  "unat (stress_memthrash_max 3 8) = 3 \<and> unat (stress_memthrash_max 0 8) = 1
   \<and> unat (stress_memthrash_max 8 8) = 1 \<and> unat (stress_memthrash_max 1 8) = 8"
  using memthrash_max_worker_count [of 3 8] memthrash_max_worker_count [of 0 8]
    memthrash_max_worker_count [of 8 8] memthrash_max_worker_count [of 1 8]
  by (simp add: ceiling_eq_iff word_le_nat_alt)


lemma word_gt1_nat: "(1 < (n::32 word)) = (2 \<le> unat n)"
  by (simp add: word_less_nat_alt) arith

lemma word_mod0_dvd: "((c::32 word) mod n = 0) = (unat n dvd unat c)"
  by (metis unat_mod unat_eq_0 dvd_eq_mod_eq_0)

lemma unat_pred: "1 < (n::32 word) \<Longrightarrow> unat (n - 1) = unat n - 1"
  by (metis unat_minus_one unat_0 not_numeral_le_zero word_gt1_nat)

lemma optimal_loop_found:
  "\<exists>m. 2 \<le> m \<and> m \<le> unat n \<and> m dvd unat c \<Longrightarrow>
     2 \<le> unat (optimal_loop c n) \<and> unat (optimal_loop c n) \<le> unat n \<and>
     unat (optimal_loop c n) dvd unat c \<and>
     (\<forall>m. 2 \<le> m \<and> m \<le> unat n \<and> m dvd unat c \<longrightarrow> m \<le> unat (optimal_loop c n))"
proof (induction c n rule: optimal_loop.induct)
  case (1 c n)
  from "1.prems" have gt: "1 < n"
    by (auto simp: word_gt1_nat)
  show ?case
  proof (cases "c mod n = 0")
    case True
    then have "unat n dvd unat c"
      by (simp add: word_mod0_dvd)
    with gt True show ?thesis
      by (subst (1 2 3 4) optimal_loop.simps) (simp add: word_gt1_nat)
  next
    case False
    then have nd: "\<not> unat n dvd unat c"
      by (simp add: word_mod0_dvd)
    have eq: "optimal_loop c n = optimal_loop c (n - 1)"
      using gt False by (subst optimal_loop.simps) simp
    obtain m where m: "2 \<le> m" "m \<le> unat n" "m dvd unat c"
      using "1.prems" by blast
    with nd have "m \<noteq> unat n"
      by auto
    with m have "m \<le> unat (n - 1)"
      by (simp add: unat_pred [OF gt])
    with m have ex: "\<exists>m. 2 \<le> m \<and> m \<le> unat (n - 1) \<and> m dvd unat c"
      by blast
    have step: "k \<le> unat (n - 1)" if "k \<le> unat n" "k dvd unat c" for k
    proof -
      from that nd have "k \<noteq> unat n"
        by auto
      with that show ?thesis
        by (simp add: unat_pred [OF gt])
    qed
    have down: "unat (n - 1) \<le> unat n"
      by (simp add: unat_pred [OF gt])
    from "1.IH" [OF gt False ex] show ?thesis
      unfolding eq using step down by (meson le_trans)
  qed
qed

lemma optimal_loop_none:
  "\<not> (\<exists>m. 2 \<le> m \<and> m \<le> unat n \<and> m dvd unat c) \<Longrightarrow> optimal_loop c n = 1"
proof (induction c n rule: optimal_loop.induct)
  case (1 c n)
  show ?case
  proof (cases "1 < n")
    case True
    then have nd: "\<not> unat n dvd unat c"
      using "1.prems" by (auto simp: word_gt1_nat)
    then have F: "c mod n \<noteq> 0"
      by (simp add: word_mod0_dvd)
    have "\<not> (\<exists>m. 2 \<le> m \<and> m \<le> unat (n - 1) \<and> m dvd unat c)"
      using "1.prems" unat_pred [OF True] by auto
    from "1.IH" [OF True F this] show ?thesis
      using True F by (subst optimal_loop.simps) simp
  next
    case False
    then show ?thesis
      by (subst optimal_loop.simps) simp
  qed
qed

text \<open>
  C9. \<^verbatim>\<open>stress_memthash_optimal(w, c)\<close> is the largest \<open>n\<close> with \<open>2 \<le> n \<le> w\<close> that
  divides \<open>c\<close> when there is one, and 1 otherwise; so the result divides \<open>c\<close> and is at
  most \<open>w\<close>, or is 1.
\<close>

theorem memthash_optimal_largest_divisor:
  "(if \<exists>n. 2 \<le> n \<and> n \<le> unat w \<and> n dvd unat c
    then 2 \<le> unat (stress_memthash_optimal w c)
       \<and> unat (stress_memthash_optimal w c) \<le> unat w
       \<and> unat (stress_memthash_optimal w c) dvd unat c
       \<and> (\<forall>n. 2 \<le> n \<and> n \<le> unat w \<and> n dvd unat c \<longrightarrow> n \<le> unat (stress_memthash_optimal w c))
    else stress_memthash_optimal w c = 1)
   \<and> (unat (stress_memthash_optimal w c) dvd unat c
        \<and> unat (stress_memthash_optimal w c) \<le> unat w
       \<or> stress_memthash_optimal w c = 1)"
proof (cases "\<exists>n. 2 \<le> n \<and> n \<le> unat w \<and> n dvd unat c")
  case True
  from optimal_loop_found [OF True] True show ?thesis
    unfolding stress_memthash_optimal_def by simp
next
  case False
  from optimal_loop_none [OF False] False show ?thesis
    unfolding stress_memthash_optimal_def by simp
qed

text \<open>With 6 instances on 8 CPUs the divisor 4 is in range, so the result is at least 4.\<close>

theorem memthash_optimal_largest_divisor_witness:
  "(\<exists>n. 2 \<le> n \<and> n \<le> unat (6 :: 32 word) \<and> n dvd unat (8 :: 32 word))
   \<and> 4 \<le> unat (stress_memthash_optimal 6 8)
   \<and> unat (stress_memthash_optimal 6 8) dvd 8"
proof -
  have ex: "\<exists>n. 2 \<le> n \<and> n \<le> unat (6 :: 32 word) \<and> n dvd unat (8 :: 32 word)"
    by (rule exI [of _ 4]) simp
  have "(4::nat) dvd 8"
    by simp
  with ex memthash_optimal_largest_divisor [of 6 8] show ?thesis
    by simp
qed

end
